theory Spec2Isabelle
  imports Main
begin

section \<open>Python values used by terminal\_interativo.py\<close>

text \<open>
  A Python \<open>str\<close> is a sequence of Unicode code points, so it is modelled as a list of
  natural numbers. \<open>ascii\<close> turns an ASCII literal into that representation; code points
  beyond ASCII (accented letters, emoji) are written as numbers.
\<close>

type_synonym str = "nat list"

definition ascii :: "string \<Rightarrow> str" where
  "ascii s = map of_char s"

text \<open>
  \<open>str.isspace\<close> for one code point: the white space table of CPython
  (general category Zs, or bidirectional class WS, B or S).
\<close>

definition isspace :: "nat \<Rightarrow> bool" where
  "isspace c =
     ((0x09 \<le> c \<and> c \<le> 0x0D) \<or> (0x1C \<le> c \<and> c \<le> 0x20) \<or> c = 0x85 \<or> c = 0xA0
      \<or> c = 0x1680 \<or> (0x2000 \<le> c \<and> c \<le> 0x200A) \<or> c = 0x2028 \<or> c = 0x2029
      \<or> c = 0x202F \<or> c = 0x205F \<or> c = 0x3000)"

text \<open>\<open>str.strip()\<close> with no argument: white space is removed at both ends.\<close>

definition strip :: "str \<Rightarrow> str" where
  "strip s = rev (dropWhile isspace (rev (dropWhile isspace s)))"

text \<open>
  \<open>str.lower()\<close>. On a string of ASCII code points only the letters A to Z change. The
  lower-case mapping of other strings comes from the Unicode database of the Python
  runtime, which is not part of the repository: it is the parameter \<open>unicode_lower\<close>.
\<close>

definition ascii_lower :: "nat \<Rightarrow> nat" where
  "ascii_lower c = (if 0x41 \<le> c \<and> c \<le> 0x5A then c + 0x20 else c)"

definition lower :: "(str \<Rightarrow> str) \<Rightarrow> str \<Rightarrow> str" where
  "lower unicode_lower s =
     (if list_all (\<lambda>c. c < 0x80) s then map ascii_lower s else unicode_lower s)"

text \<open>
  What can be raised. \<open>Exception cls msg\<close> is an instance of a subclass of Python's
  \<open>Exception\<close> (class name, and \<open>str(e)\<close>); \<open>KeyboardInterrupt\<close> and the other direct
  subclasses of \<open>BaseException\<close> are not caught by \<open>except Exception\<close>.
\<close>

datatype exn = Exception string str | KeyboardInterrupt | OtherBaseException string

text \<open>
  \<open>asyncio.CancelledError\<close>, which asyncio raises inside a coroutine at an await when its
  task is cancelled. It is a direct subclass of \<open>BaseException\<close>.
\<close>

definition CancelledError :: exn where
  "CancelledError = OtherBaseException ''CancelledError''"

text \<open>How an f-string shows an optional string: \<open>None\<close> is shown as the word None.\<close>

definition format_value :: "str option \<Rightarrow> str" where
  "format_value v = (case v of None \<Rightarrow> ascii ''None'' | Some s \<Rightarrow> s)"

section \<open>The interface of the agent framework\<close>

text \<open>
  The classes of google.genai and google.adk are outside the repository. An event is
  modelled by the three observations the script makes of it: the list returned by
  \<open>get_function_calls()\<close>, the result of \<open>is_final_response()\<close>, and the attribute
  \<open>content\<close>, whose \<open>parts\<close> and whose parts' \<open>text\<close> are optional as in the library.
\<close>

record FunctionCall =
  name :: "str option"

record Part =
  part_text :: "str option"

record Content =
  role :: "str option"
  parts :: "Part list option"

record Event =
  get_function_calls :: "FunctionCall list"
  is_final_response :: bool
  content :: "Content option"

text \<open>
  The asynchronous generator returned by \<open>run_async\<close>, as the \<open>async for\<close> statement sees
  it: it yields an event and goes on, ends, or raises. \<open>Interrupt\<close> is a SIGINT that
  arrives while the turn is suspended at an await inside the runner: \<open>asyncio.run\<close>
  cancels the main task (from its signal handler on CPython 3.11 and later, when it
  shuts down after the KeyboardInterrupt that left its event loop before), so the
  statement raises CancelledError.
\<close>

datatype event_stream = StopAsyncIteration | Raise exn | Interrupt | Yield Event event_stream

text \<open>The events a stream yields, and the exception it ends with, if any.\<close>

fun events_of :: "event_stream \<Rightarrow> Event list" where
  "events_of StopAsyncIteration = []"
| "events_of (Raise e) = []"
| "events_of Interrupt = []"
| "events_of (Yield ev rest) = ev # events_of rest"

fun raised_by :: "event_stream \<Rightarrow> exn option" where
  "raised_by StopAsyncIteration = None"
| "raised_by (Raise e) = Some e"
| "raised_by Interrupt = Some CancelledError"
| "raised_by (Yield ev rest) = raised_by rest"

text \<open>One call of \<open>runner.run_async(user_id=..., session_id=..., new_message=...)\<close>.\<close>

record run_async_call =
  user_id :: str
  session_id :: str
  new_message :: Content

text \<open>
  What happens to a call of \<open>input()\<close> after it has written its prompt: it returns a
  line, it raises, a SIGINT arrives while it waits (followed by what happens to the
  call afterwards, if the signal does not end it), or it is still waiting.
\<close>

datatype input_result = Line str | InputRaises exn | Sigint input_result | Waiting

text \<open>
  Everything the script takes from outside: the environment variables, the string of
  \<open>uuid.uuid4()\<close>, the Unicode lower-case mapping, whether building the toolset and the
  agent or creating the session raises, the runner, which answers a call given all
  the calls made so far (the last one is the current call), and whether \<open>asyncio.run\<close>
  installs its own SIGINT handler (CPython 3.11 and later; before, the default handler
  of Python stays in place and raises KeyboardInterrupt where the main thread is).
\<close>

record runtime =
  environ :: "str \<Rightarrow> str option"
  uuid4 :: str
  unicode_lower :: "str \<Rightarrow> str"
  construction_raises :: "exn option"
  setup_raises :: "exn option"
  run_async :: "run_async_call list \<Rightarrow> event_stream"
  asyncio_sigint :: bool

text \<open>
  The state: the chunks written to standard output (one per \<open>print\<close> or prompt), the
  calls made to the runner, the sessions created, and the two things \<open>asyncio.run\<close>
  keeps about interrupts: the number of SIGINTs it has to answer for, and whether a
  cancellation of the main task has been requested and not yet delivered.
\<close>

record world =
  stdout :: "str list"
  run_async_calls :: "run_async_call list"
  sessions :: "(str \<times> str \<times> str) list"
  interrupt_count :: nat
  must_cancel :: bool

definition print :: "str \<Rightarrow> str \<Rightarrow> world \<Rightarrow> world" where
  "print s ending w = w\<lparr>stdout := stdout w @ [s @ ending]\<rparr>"

definition newline :: str where
  "newline = [0x0A]"

section \<open>Constants and messages\<close>

definition APP_NAME_OPENAPI :: str where
  "APP_NAME_OPENAPI = ascii ''openapi_petstore_app''"

definition USER_ID_OPENAPI :: str where
  "USER_ID_OPENAPI = ascii ''user_openapi_1''"

definition SESSION_ID_OPENAPI :: "runtime \<Rightarrow> str" where
  "SESSION_ID_OPENAPI rt = ascii ''session_openapi_'' @ uuid4 rt"

definition GOOGLE_API_KEY :: str where
  "GOOGLE_API_KEY = ascii ''GOOGLE_API_KEY''"

definition credential_message :: str where
  "credential_message = ascii
     ''GOOGLE_API_KEY environment variable is required. Please set it before running the script.''"

definition fallback_text :: str where
  "fallback_text = ascii ''Agent n'' @ [0xE3] @ ascii ''o forneceu uma resposta final.''"

definition error_marker :: str where
  "error_marker = ascii ''Erro: ''"

definition tool_notice :: "FunctionCall \<Rightarrow> str" where
  "tool_notice call = [0x1F527] @ ascii '' Executando: '' @ format_value (name call)"

definition none_has_no_strip :: exn where
  "none_has_no_strip = Exception ''AttributeError''
     ([0x27] @ ascii ''NoneType'' @ [0x27] @ ascii '' object has no attribute '' @ [0x27]
      @ ascii ''strip'' @ [0x27])"

definition banner :: "str list" where
  "banner =
    [[0x1F415] @ ascii '' ===== TERMINAL INTERATIVO - PET STORE AGENT ====='',
     [0x1F4CB] @ ascii '' Comandos dispon'' @ [0xED] @ ascii ''veis:'',
     ascii ''   - Listar pets: '' @ [0x27] @ ascii ''mostre os pets'' @ [0x27] @ ascii '', ''
       @ [0x27] @ ascii ''quais pets est'' @ [0xE3] @ ascii ''o dispon'' @ [0xED] @ ascii ''veis''
       @ [0x27],
     ascii ''   - Criar pet: '' @ [0x27] @ ascii ''crie um gato chamado Mimi'' @ [0x27]
       @ ascii '', '' @ [0x27] @ ascii ''adicione um c'' @ [0xE3] @ ascii ''o Rex'' @ [0x27],
     ascii ''   - Buscar pet: '' @ [0x27] @ ascii ''mostre o pet 123'' @ [0x27] @ ascii '', ''
       @ [0x27] @ ascii ''info do pet 456'' @ [0x27],
     ascii ''   - Sair: '' @ [0x27] @ ascii ''sair'' @ [0x27] @ ascii '', '' @ [0x27]
       @ ascii ''quit'' @ [0x27] @ ascii '', '' @ [0x27] @ ascii ''exit'' @ [0x27],
     replicate 60 0x3D]"

definition initialised_message :: str where
  "initialised_message = [0x2705] @ ascii '' Sistema inicializado com sucesso!''"

definition type_message :: str where
  "type_message = [0x1F4AC] @ ascii '' Digite sua mensagem (ou '' @ [0x27] @ ascii ''sair''
     @ [0x27] @ ascii '' para terminar):''"

definition prompt :: str where
  "prompt = [0x0A, 0x1F5E3, 0xFE0F] @ ascii ''  Voc'' @ [0xEA] @ ascii '': ''"

definition exit_phrases :: "str list" where
  "exit_phrases = [ascii ''sair'', ascii ''quit'', ascii ''exit'', ascii ''q'']"

definition farewell :: str where
  "farewell = [0x1F44B] @ ascii '' Tchau! At'' @ [0xE9] @ ascii '' logo!''"

definition warning :: str where
  "warning = [0x26A0, 0xFE0F] @ ascii ''  Por favor, digite algo!''"

definition processing :: str where
  "processing = [0x1F916] @ ascii '' Agente: Processando...''"

definition response_line :: "str \<Rightarrow> str" where
  "response_line response = [0x0D, 0x1F916] @ ascii '' Agente: '' @ response"

definition interrupted :: str where
  "interrupted = [0x0A, 0x1F44B] @ ascii '' Interrompido pelo usu'' @ [0xE1]
     @ ascii ''rio. Tchau!''"

definition loop_error :: "str \<Rightarrow> str" where
  "loop_error e = [0x0A, 0x274C] @ ascii '' Erro: '' @ e"

definition init_error :: "str \<Rightarrow> str" where
  "init_error e = [0x274C] @ ascii '' Erro ao inicializar o sistema: '' @ e"

definition program_ended :: str where
  "program_ended = [0x0A, 0x1F44B] @ ascii '' Programa encerrado.''"

definition fatal_error :: "str \<Rightarrow> str" where
  "fatal_error e = [0x274C] @ ascii '' Erro fatal: '' @ e"

section \<open>setup\_session\_and\_runner\<close>

definition setup_session_and_runner :: "runtime \<Rightarrow> world \<Rightarrow> (exn + unit) \<times> world" where
  "setup_session_and_runner rt w =
     (case setup_raises rt of
        Some e \<Rightarrow> (Inl e, w)
      | None \<Rightarrow>
          (Inr (),
           w\<lparr>sessions := sessions w @ [(APP_NAME_OPENAPI, USER_ID_OPENAPI, SESSION_ID_OPENAPI rt)]\<rparr>))"

section \<open>call\_agent\<close>

text \<open>
  The body of the \<open>async for\<close> loop, run over the stream with the current value of
  \<open>final_response_text\<close>. \<open>Inl e\<close>: the try block raised \<open>e\<close>; \<open>Inr t\<close>: the loop ended and
  \<open>t\<close> is returned. \<open>parts[0].text.strip()\<close> raises AttributeError when the text is None.
\<close>

fun consume :: "event_stream \<Rightarrow> str \<Rightarrow> world \<Rightarrow> (exn + str) \<times> world" where
  "consume StopAsyncIteration final_response_text w = (Inr final_response_text, w)"
| "consume (Raise e) final_response_text w = (Inl e, w)"
| "consume Interrupt final_response_text w =
     (Inl CancelledError, w\<lparr>interrupt_count := interrupt_count w + 1\<rparr>)"
| "consume (Yield ev rest) final_response_text w =
     (case get_function_calls ev of
        call # _ \<Rightarrow> consume rest final_response_text (print (tool_notice call) newline w)
      | [] \<Rightarrow>
          (case (is_final_response ev, content ev) of
             (True, Some c) \<Rightarrow>
               (case parts c of
                  Some (p # _) \<Rightarrow>
                    (case part_text p of
                       None \<Rightarrow> (Inl none_has_no_strip, w)
                     | Some t \<Rightarrow> consume rest (strip t) w)
                | _ \<Rightarrow> consume rest final_response_text w)
           | _ \<Rightarrow> consume rest final_response_text w))"

text \<open>
  The arguments of the call of \<open>run_async\<close>: the two module constants and the query
  wrapped as the single part of a user message.
\<close>

definition dispatch :: "runtime \<Rightarrow> str \<Rightarrow> run_async_call" where
  "dispatch rt query =
     \<lparr>user_id = USER_ID_OPENAPI, session_id = SESSION_ID_OPENAPI rt,
      new_message = \<lparr>role = Some (ascii ''user''), parts = Some [\<lparr>part_text = Some query\<rparr>]\<rparr>\<rparr>"

text \<open>
  The stream that the \<open>async for\<close> statement of \<open>call_agent rt query w\<close> sees. The runner
  awaits before it has anything to yield, and a cancellation of the main task that is
  pending is delivered at that first await: the statement then raises CancelledError.
  Otherwise the stream is the one the runner returns for the call.
\<close>

definition turn_stream :: "runtime \<Rightarrow> str \<Rightarrow> world \<Rightarrow> event_stream" where
  "turn_stream rt query w =
     (if must_cancel w then Raise CancelledError
      else run_async rt (run_async_calls w @ [dispatch rt query]))"

text \<open>
  \<open>call_agent\<close>: \<open>Inr s\<close> is the returned string, \<open>Inl e\<close> an exception that
  \<open>except Exception\<close> does not catch. At the first await of the turn no cancellation is
  pending any more.
\<close>

definition call_agent :: "runtime \<Rightarrow> str \<Rightarrow> world \<Rightarrow> (exn + str) \<times> world" where
  "call_agent rt query w =
     (let w1 = w\<lparr>run_async_calls := run_async_calls w @ [dispatch rt query], must_cancel := False\<rparr>
      in case consume (turn_stream rt query w) fallback_text w1 of
           (Inr final_response_text, w2) \<Rightarrow> (Inr final_response_text, w2)
         | (Inl (Exception cls msg), w2) \<Rightarrow> (Inr (error_marker @ msg), w2)
         | (Inl e, w2) \<Rightarrow> (Inl e, w2))"

section \<open>interactive\_terminal\<close>

text \<open>
  How one pass through the body of \<open>while True\<close> ends; \<open>Blocked\<close>: it has not ended,
  \<open>input()\<close> is still waiting.
\<close>

datatype control = Continue | Break | Propagate exn | Blocked

text \<open>
  A call of \<open>input()\<close> whose prompt is written; \<open>None\<close>: it is still waiting. A SIGINT
  under the default handler raises KeyboardInterrupt in the call. The handler that
  \<open>asyncio.run\<close> installs counts the signal; at the first one it only requests the
  cancellation of the main task and returns, so that \<open>input()\<close> goes on waiting, and from
  the second one on it raises KeyboardInterrupt.
\<close>

fun input_call :: "runtime \<Rightarrow> input_result \<Rightarrow> world \<Rightarrow> (exn + str) option \<times> world" where
  "input_call rt (Line s) w = (Some (Inr s), w)"
| "input_call rt (InputRaises e) w = (Some (Inl e), w)"
| "input_call rt Waiting w = (None, w)"
| "input_call rt (Sigint r) w =
     (if asyncio_sigint rt then
        (let w' = w\<lparr>interrupt_count := interrupt_count w + 1\<rparr> in
         if interrupt_count w' = 1 then input_call rt r (w'\<lparr>must_cancel := True\<rparr>)
         else (Some (Inl KeyboardInterrupt), w'))
      else (Some (Inl KeyboardInterrupt), w))"

text \<open>The two handlers of the inner try block.\<close>

definition inner_except :: "exn \<Rightarrow> world \<Rightarrow> control \<times> world" where
  "inner_except e w =
     (case e of
        KeyboardInterrupt \<Rightarrow> (Break, print interrupted newline w)
      | Exception cls msg \<Rightarrow> (Continue, print (loop_error msg) newline w)
      | OtherBaseException cls \<Rightarrow> (Propagate e, w))"

definition loop_body :: "runtime \<Rightarrow> input_result \<Rightarrow> world \<Rightarrow> control \<times> world" where
  "loop_body rt inp w =
     (case input_call rt inp (print prompt [] w) of
        (None, w0) \<Rightarrow> (Blocked, w0)
      | (Some (Inl e), w0) \<Rightarrow> inner_except e w0
      | (Some (Inr raw), w0) \<Rightarrow>
          (let user_input = strip raw in
           if lower (unicode_lower rt) user_input \<in> set exit_phrases then
             (Break, print farewell newline w0)
           else if user_input = [] then
             (Continue, print warning newline w0)
           else
             (case call_agent rt user_input (print processing [] w0) of
                (Inr response, w2) \<Rightarrow> (Continue, print (response_line response) newline w2)
              | (Inl e, w2) \<Rightarrow> inner_except e w2)))"

text \<open>
  The loop, run against what happens to the successive calls of \<open>input()\<close>. When they
  are used up the loop is about to call \<open>input()\<close> again, and when a call is still waiting
  the loop stays there: in both cases it is in state \<open>AwaitingInput\<close>.
\<close>

datatype loop_state = AwaitingInput | Exiting | Raising exn

fun while_loop :: "runtime \<Rightarrow> input_result list \<Rightarrow> world \<Rightarrow> loop_state \<times> world" where
  "while_loop rt [] w = (AwaitingInput, w)"
| "while_loop rt (inp # inps) w =
     (case loop_body rt inp w of
        (Continue, w') \<Rightarrow> while_loop rt inps w'
      | (Break, w') \<Rightarrow> (Exiting, w')
      | (Propagate e, w') \<Rightarrow> (Raising e, w')
      | (Blocked, w') \<Rightarrow> (AwaitingInput, w'))"

text \<open>How a function, or the process, stands after the given inputs.\<close>

datatype process_state = Running | Returned | Uncaught exn

definition outer_except :: "exn \<Rightarrow> world \<Rightarrow> process_state \<times> world" where
  "outer_except e w =
     (case e of
        Exception cls msg \<Rightarrow> (Returned, print (init_error msg) newline w)
      | _ \<Rightarrow> (Uncaught e, w))"

definition interactive_terminal ::
  "runtime \<Rightarrow> input_result list \<Rightarrow> world \<Rightarrow> process_state \<times> world" where
  "interactive_terminal rt inps w =
     (let w1 = fold (\<lambda>l. print l newline) banner w in
      case setup_session_and_runner rt w1 of
        (Inl e, w2) \<Rightarrow> outer_except e w2
      | (Inr runner, w2) \<Rightarrow>
          (case while_loop rt inps (print type_message newline (print initialised_message newline w2)) of
             (AwaitingInput, w3) \<Rightarrow> (Running, w3)
           | (Exiting, w3) \<Rightarrow> (Returned, w3)
           | (Raising e, w3) \<Rightarrow> outer_except e w3))"

section \<open>The module\<close>

text \<open>
  \<open>asyncio.run(interactive_terminal())\<close>. The coroutine runs as the main task. When the
  task ends cancelled (the coroutine let CancelledError pass, or it returned while a
  requested cancellation was still pending), \<open>asyncio.run\<close> raises KeyboardInterrupt if
  it has a SIGINT to answer for, and CancelledError otherwise. Any other outcome of the
  coroutine is the outcome of \<open>asyncio.run\<close>.
\<close>

definition task_cancelled :: "world \<Rightarrow> process_state \<times> world" where
  "task_cancelled w =
     (if 0 < interrupt_count w then (Uncaught KeyboardInterrupt, w\<lparr>must_cancel := False\<rparr>)
      else (Uncaught CancelledError, w\<lparr>must_cancel := False\<rparr>))"

definition asyncio_run :: "runtime \<Rightarrow> input_result list \<Rightarrow> world \<Rightarrow> process_state \<times> world" where
  "asyncio_run rt inps w =
     (case interactive_terminal rt inps w of
        (Returned, w') \<Rightarrow> (if must_cancel w' then task_cancelled w' else (Returned, w'))
      | (Uncaught (OtherBaseException cls), w') \<Rightarrow>
          (if OtherBaseException cls = CancelledError then task_cancelled w'
           else (Uncaught (OtherBaseException cls), w'))
      | other \<Rightarrow> other)"

text \<open>The block under \<open>if __name__ == "__main__"\<close>, with its two handlers.\<close>

definition main_block :: "runtime \<Rightarrow> input_result list \<Rightarrow> world \<Rightarrow> process_state \<times> world" where
  "main_block rt inps w =
     (case asyncio_run rt inps w of
        (Uncaught KeyboardInterrupt, w') \<Rightarrow> (Returned, print program_ended newline w')
      | (Uncaught (Exception cls msg), w') \<Rightarrow> (Returned, print (fatal_error msg) newline w')
      | other \<Rightarrow> other)"

definition initial_world :: world where
  "initial_world =
     \<lparr>stdout = [], run_async_calls = [], sessions = [], interrupt_count = 0, must_cancel = False\<rparr>"

text \<open>
  The module from its first statement: the credential check (\<open>not os.environ.get(...)\<close>
  holds for an unset and for an empty variable), the construction of the toolset and
  the agent, then the main block.
\<close>

definition terminal_interativo :: "runtime \<Rightarrow> input_result list \<Rightarrow> process_state \<times> world" where
  "terminal_interativo rt inps =
     (if environ rt GOOGLE_API_KEY = None \<or> environ rt GOOGLE_API_KEY = Some [] then
        (Uncaught (Exception ''ValueError'' credential_message), initial_world)
      else
        (case construction_raises rt of
           Some e \<Rightarrow> (Uncaught e, initial_world)
         | None \<Rightarrow> main_block rt inps initial_world))"

section \<open>Notions used to state the properties\<close>

text \<open>
  An event \<open>answers\<close> when the loop of \<open>call_agent\<close> reaches the assignment to
  \<open>final_response_text\<close> for it: it has no function call, it is marked final, and its
  content has a non-empty list of parts. \<open>first_text\<close> is then \<open>parts[0].text\<close>.
\<close>

definition answers :: "Event \<Rightarrow> bool" where
  "answers ev =
     (get_function_calls ev = [] \<and> is_final_response ev \<and>
      (case content ev of
         None \<Rightarrow> False
       | Some c \<Rightarrow> (case parts c of Some (p # ps) \<Rightarrow> True | _ \<Rightarrow> False)))"

definition first_text :: "Event \<Rightarrow> str option" where
  "first_text ev =
     (case content ev of
        None \<Rightarrow> None
      | Some c \<Rightarrow> (case parts c of Some (p # ps) \<Rightarrow> part_text p | _ \<Rightarrow> None))"

text \<open>
  The state in which \<open>interactive_terminal\<close> enters its loop when the script is started
  and nothing raises before: the banner is printed, the session is created, and the
  two lines that follow are printed.
\<close>

definition loop_entry :: "runtime \<Rightarrow> world" where
  "loop_entry rt =
     print type_message newline (print initialised_message newline
       (snd (setup_session_and_runner rt (fold (\<lambda>l. print l newline) banner initial_world))))"

text \<open>
  The invariant of the identifiers: every call made to the runner carries the user
  identifier and the session identifier of the module, and at most one session has
  been created, with the same identifiers.
\<close>

definition ids_ok :: "runtime \<Rightarrow> world \<Rightarrow> bool" where
  "ids_ok rt w \<longleftrightarrow>
     (\<forall>c \<in> set (run_async_calls w). user_id c = USER_ID_OPENAPI \<and> session_id c = SESSION_ID_OPENAPI rt)
     \<and> (\<forall>ss \<in> set (sessions w). ss = (APP_NAME_OPENAPI, USER_ID_OPENAPI, SESSION_ID_OPENAPI rt))
     \<and> length (sessions w) \<le> 1"

text \<open>Concrete events and a concrete runtime, for the examples.\<close>


definition tool_event :: "str \<Rightarrow> Event" where
  "tool_event nm =
     \<lparr>get_function_calls = [\<lparr>name = Some nm\<rparr>], is_final_response = False, content = None\<rparr>"

definition final_event :: "str \<Rightarrow> Event" where
  "final_event t =
     \<lparr>get_function_calls = [], is_final_response = True,
      content = Some \<lparr>role = Some (ascii ''model''), parts = Some [\<lparr>part_text = Some t\<rparr>]\<rparr>\<rparr>"

definition final_event_with_call :: "str \<Rightarrow> str \<Rightarrow> Event" where
  "final_event_with_call nm t =
     \<lparr>get_function_calls = [\<lparr>name = Some nm\<rparr>], is_final_response = True,
      content = Some \<lparr>role = Some (ascii ''model''), parts = Some [\<lparr>part_text = Some t\<rparr>]\<rparr>\<rparr>"

definition scripted_runtime :: "event_stream \<Rightarrow> runtime" where
  "scripted_runtime s =
     \<lparr>environ = (\<lambda>k. if k = GOOGLE_API_KEY then Some (ascii ''key'') else None),
      uuid4 = ascii ''1b4e28ba-2fa1-41d2-883f-0016d3cca427'',
      unicode_lower = (\<lambda>x. x),
      construction_raises = None,
      setup_raises = None,
      run_async = (\<lambda>calls. s),
      asyncio_sigint = True\<rparr>"

section \<open>Lemmas about printing and the event loop\<close>

lemma stdout_print [simp]: "stdout (print s e w) = stdout w @ [s @ e]"
  by (simp add: print_def)

lemma run_async_calls_print [simp]: "run_async_calls (print s e w) = run_async_calls w"
  by (simp add: print_def)

lemma sessions_print [simp]: "sessions (print s e w) = sessions w"
  by (simp add: print_def)

lemma interrupt_count_print [simp]: "interrupt_count (print s e w) = interrupt_count w"
  by (simp add: print_def)

lemma must_cancel_print [simp]: "must_cancel (print s e w) = must_cancel w"
  by (simp add: print_def)

lemma initial_world_simps [simp]:
  "stdout initial_world = []" "run_async_calls initial_world = []" "sessions initial_world = []"
  "interrupt_count initial_world = 0" "\<not> must_cancel initial_world"
  by (simp_all add: initial_world_def)

lemma consume_Yield_tool:
  "get_function_calls ev = call # calls \<Longrightarrow>
   consume (Yield ev rest) t w = consume rest t (print (tool_notice call) newline w)"
  by simp

lemma consume_Yield_answers:
  "answers ev \<Longrightarrow> first_text ev = Some x \<Longrightarrow>
   consume (Yield ev rest) t w = consume rest (strip x) w"
  by (auto simp: answers_def first_text_def split: option.splits list.splits)

lemma consume_Yield_answers_None:
  "answers ev \<Longrightarrow> first_text ev = None \<Longrightarrow>
   consume (Yield ev rest) t w = (Inl none_has_no_strip, w)"
  by (auto simp: answers_def first_text_def split: option.splits list.splits)

lemma consume_Yield_other:
  "get_function_calls ev = [] \<Longrightarrow> \<not> answers ev \<Longrightarrow>
   consume (Yield ev rest) t w = consume rest t w"
  by (auto simp: answers_def split: option.splits list.splits bool.splits)

lemma consume_cases:
  obtains (tool) call calls where "get_function_calls ev = call # calls"
  | (answer) x where "answers ev" "first_text ev = Some x"
  | (none) "answers ev" "first_text ev = None"
  | (other) "get_function_calls ev = []" "\<not> answers ev"
  by (cases "get_function_calls ev"; cases "first_text ev"; cases "answers ev") auto

lemma fst_consume_world: "fst (consume s t w) = fst (consume s t w')"
proof (induction s arbitrary: t w w')
  case (Yield ev rest)
  show ?case
  proof (cases ev rule: consume_cases)
    case (tool call calls)
    then show ?thesis using Yield.IH by (simp only: consume_Yield_tool)
  next
    case (answer x)
    then show ?thesis using Yield.IH by (simp only: consume_Yield_answers)
  next
    case none
    then show ?thesis by (simp only: consume_Yield_answers_None fst_conv)
  next
    case other
    then show ?thesis using Yield.IH by (simp add: consume_Yield_other del: consume.simps)
  qed
qed simp_all

lemma consume_keeps_calls:
  "run_async_calls (snd (consume s t w)) = run_async_calls w \<and>
   sessions (snd (consume s t w)) = sessions w"
proof (induction s arbitrary: t w)
  case (Yield ev rest)
  show ?case
  proof (cases ev rule: consume_cases)
    case (tool call calls)
    then show ?thesis using Yield.IH [of t "print (tool_notice call) newline w"]
      by (simp only: consume_Yield_tool run_async_calls_print sessions_print)
  next
    case (answer x)
    then show ?thesis using Yield.IH by (simp only: consume_Yield_answers)
  next
    case none
    then show ?thesis by (simp only: consume_Yield_answers_None snd_conv)
  next
    case other
    then show ?thesis using Yield.IH by (simp add: consume_Yield_other del: consume.simps)
  qed
qed simp_all

lemma last_dropWhile: "dropWhile P xs \<noteq> [] \<Longrightarrow> last (dropWhile P xs) = last xs"
  by (induction xs) (auto split: if_splits)

lemma strip_all_space:
  assumes "list_all isspace s"
  shows "strip s = []"
proof -
  have d: "dropWhile isspace s = []" using assms by (simp add: list_all_iff)
  show ?thesis unfolding strip_def d by simp
qed

lemma strip_ends:
  assumes "strip s \<noteq> []"
  shows "\<not> isspace (hd (strip s)) \<and> \<not> isspace (last (strip s))"
proof -
  define d where "d = dropWhile isspace s"
  define r where "r = dropWhile isspace (rev d)"
  have s: "strip s = rev r" by (simp add: strip_def d_def r_def)
  with assms have r: "r \<noteq> []" by simp
  then have d: "d \<noteq> []" by (auto simp: r_def)
  have "last (strip s) = hd r" using r by (simp add: s last_rev)
  moreover have "\<not> isspace (hd r)" using r unfolding r_def by (rule hd_dropWhile)
  moreover have "hd (strip s) = last r" using r by (simp add: s hd_rev)
  moreover have "last r = last (rev d)" using r unfolding r_def by (rule last_dropWhile)
  moreover have "last (rev d) = hd d" using d by (simp add: last_rev)
  moreover have "\<not> isspace (hd d)" using d unfolding d_def by (rule hd_dropWhile)
  ultimately show ?thesis by simp
qed

lemma consume_no_answer:
  "raised_by s = None \<Longrightarrow> \<forall>e \<in> set (events_of s). \<not> answers e \<Longrightarrow>
   fst (consume s t w) = Inr t"
proof (induction s arbitrary: t w)
  case (Yield ev rest)
  then have na: "\<not> answers ev" and rest: "raised_by rest = None"
    "\<forall>e \<in> set (events_of rest). \<not> answers e" by simp_all
  show ?case
  proof (cases "get_function_calls ev")
    case Nil
    then show ?thesis using na Yield.IH [OF rest]
      by (simp add: consume_Yield_other del: consume.simps)
  next
    case (Cons call calls)
    then show ?thesis using Yield.IH [OF rest]
      by (simp only: consume_Yield_tool)
  qed
qed simp_all

lemma consume_prefix:
  "events_of s = pre @ evs \<Longrightarrow> \<forall>e \<in> set pre. answers e \<longrightarrow> first_text e \<noteq> None \<Longrightarrow>
   \<exists>s' t' w'. consume s t w = consume s' t' w' \<and> events_of s' = evs \<and> raised_by s' = raised_by s"
proof (induction pre arbitrary: s t w)
  case Nil
  then show ?case by auto
next
  case (Cons p ps)
  then obtain rest where s: "s = Yield p rest" and rest: "events_of rest = ps @ evs"
    by (cases s) auto
  have ps: "\<forall>e \<in> set ps. answers e \<longrightarrow> first_text e \<noteq> None" using Cons.prems(2) by simp
  have step: "\<exists>t1 w1. consume s t w = consume rest t1 w1"
  proof (cases p rule: consume_cases)
    case (tool call calls)
    then show ?thesis unfolding s by (auto simp only: consume_Yield_tool)
  next
    case (answer x)
    then show ?thesis unfolding s by (auto simp only: consume_Yield_answers)
  next
    case none
    then show ?thesis using Cons.prems(2) by simp
  next
    case other
    then have "consume s t w = consume rest t w"
      unfolding s by (simp add: consume_Yield_other del: consume.simps)
    then show ?thesis by blast
  qed
  then obtain t1 w1 where "consume s t w = consume rest t1 w1" by blast
  moreover obtain s' t' w' where "consume rest t1 w1 = consume s' t' w'" "events_of s' = evs"
    "raised_by s' = raised_by rest"
    using Cons.IH [OF rest ps, of t1 w1] by blast
  ultimately show ?case using s by auto
qed

lemma consume_last_answer:
  assumes "raised_by s = None"
    and "events_of s = pre @ ev # post"
    and "\<forall>e \<in> set pre. answers e \<longrightarrow> first_text e \<noteq> None"
    and "answers ev" and "first_text ev = Some x"
    and "\<forall>e \<in> set post. \<not> answers e"
  shows "fst (consume s t w) = Inr (strip x)"
proof -
  obtain s' t' w' where c: "consume s t w = consume s' t' w'"
    and ev: "events_of s' = ev # post" and r: "raised_by s' = raised_by s"
    using consume_prefix [OF assms(2,3), of t w] by blast
  from ev obtain rest where s': "s' = Yield ev rest" and rest: "events_of rest = post"
    by (cases s') auto
  have "raised_by rest = None" using r assms(1) s' by simp
  then have "fst (consume rest (strip x) w') = Inr (strip x)"
    using consume_no_answer rest assms(6) by blast
  then show ?thesis using c s' assms(4,5) by (simp only: consume_Yield_answers)
qed

lemma call_agent_unfold:
  "call_agent rt query w =
     (case consume (turn_stream rt query w) fallback_text
             (w\<lparr>run_async_calls := run_async_calls w @ [dispatch rt query],
                must_cancel := False\<rparr>) of
        (Inr t, w2) \<Rightarrow> (Inr t, w2)
      | (Inl (Exception cls msg), w2) \<Rightarrow> (Inr (error_marker @ msg), w2)
      | (Inl e, w2) \<Rightarrow> (Inl e, w2))"
  by (simp add: call_agent_def Let_def)

lemma call_agent_returns:
  assumes "fst (consume (turn_stream rt query w) fallback_text w0) = Inr t"
  shows "fst (call_agent rt query w) = Inr t"
proof -
  let ?w1 = "w\<lparr>run_async_calls := run_async_calls w @ [dispatch rt query],
                must_cancel := False\<rparr>"
  have "fst (consume (turn_stream rt query w) fallback_text ?w1) = Inr t"
    using assms fst_consume_world [of _ _ ?w1 w0] by simp
  then show ?thesis
    by (cases "consume (turn_stream rt query w) fallback_text ?w1")
       (simp add: call_agent_unfold)
qed


lemma fallback_text_not_empty: "fallback_text \<noteq> []"
  by (simp add: fallback_text_def ascii_def)

lemma not_final_not_answers: "\<not> is_final_response e \<Longrightarrow> \<not> answers e"
  by (simp add: answers_def)

lemma answers_first_text:
  "get_function_calls ev = [] \<Longrightarrow> is_final_response ev \<Longrightarrow> first_text ev = Some x \<Longrightarrow> answers ev"
  by (auto simp: answers_def first_text_def split: option.splits list.splits)

subsection \<open>Strings, and one pass through the loop\<close>

lemma turn_stream_print [simp]: "turn_stream rt query (print s e w) = turn_stream rt query w"
  by (simp add: turn_stream_def)



lemma lower_Nil [simp]: "lower ul [] = []"
  by (simp add: lower_def)

lemma Nil_not_exit_phrase [simp]: "[] \<notin> set exit_phrases"
  by (simp add: exit_phrases_def ascii_def)




lemma loop_body_exit:
  "lower (unicode_lower rt) (strip raw) \<in> set exit_phrases \<Longrightarrow>
   loop_body rt (Line raw) w = (Break, print farewell newline (print prompt [] w))"
  by (simp add: loop_body_def Let_def)


lemma loop_body_turn:
  "strip raw \<noteq> [] \<Longrightarrow> lower (unicode_lower rt) (strip raw) \<notin> set exit_phrases \<Longrightarrow>
   loop_body rt (Line raw) w =
     (case call_agent rt (strip raw) (print processing [] (print prompt [] w)) of
        (Inr response, w2) \<Rightarrow> (Continue, print (response_line response) newline w2)
      | (Inl e, w2) \<Rightarrow> inner_except e w2)"
  by (simp add: loop_body_def Let_def)

lemma inner_except_keeps:
  "run_async_calls (snd (inner_except e w)) = run_async_calls w \<and>
   sessions (snd (inner_except e w)) = sessions w"
  by (cases e) (simp_all add: inner_except_def)

lemma call_agent_world:
  "run_async_calls (snd (call_agent rt query w)) = run_async_calls w @ [dispatch rt query] \<and>
   sessions (snd (call_agent rt query w)) = sessions w"
proof -
  let ?w1 = "w\<lparr>run_async_calls := run_async_calls w @ [dispatch rt query],
                must_cancel := False\<rparr>"
  obtain r w2 where c: "consume (turn_stream rt query w) fallback_text ?w1 = (r, w2)"
    by (cases "consume (turn_stream rt query w) fallback_text ?w1")
  have "run_async_calls w2 = run_async_calls ?w1 \<and> sessions w2 = sessions ?w1"
    using consume_keeps_calls [of "turn_stream rt query w" fallback_text ?w1] c by simp
  then have k: "run_async_calls w2 = run_async_calls w @ [dispatch rt query]" "sessions w2 = sessions w"
    by simp_all
  have "snd (call_agent rt query w) = w2"
    using c by (simp add: call_agent_unfold split: sum.splits exn.splits)
  then show ?thesis using k by simp
qed

lemma call_agent_never_Exception: "fst (call_agent rt query w) \<noteq> Inl (Exception cls msg)"
  by (simp add: call_agent_unfold split: prod.splits sum.splits exn.splits)

lemma loop_body_turn_calls:
  assumes "strip raw \<noteq> []" and "lower (unicode_lower rt) (strip raw) \<notin> set exit_phrases"
  shows "run_async_calls (snd (loop_body rt (Line raw) w)) = run_async_calls w @ [dispatch rt (strip raw)]
    \<and> sessions (snd (loop_body rt (Line raw) w)) = sessions w"
proof -
  let ?w0 = "print processing [] (print prompt [] w)"
  obtain r w2 where c: "call_agent rt (strip raw) ?w0 = (r, w2)"
    by (cases "call_agent rt (strip raw) ?w0")
  have k: "run_async_calls w2 = run_async_calls w @ [dispatch rt (strip raw)]" "sessions w2 = sessions w"
    using call_agent_world [of rt "strip raw" ?w0] c by simp_all
  show ?thesis
  proof (cases r)
    case (Inl e)
    then show ?thesis using k inner_except_keeps [of e w2] c
      by (simp add: loop_body_turn [OF assms])
  next
    case (Inr t)
    then show ?thesis using k c by (simp add: loop_body_turn [OF assms])
  qed
qed


subsection \<open>The example events and the example runtime\<close>

lemma turn_stream_scripted [simp]:
  "\<not> must_cancel w \<Longrightarrow> turn_stream (scripted_runtime s) query w = s"
  by (simp add: turn_stream_def scripted_runtime_def)

lemma tool_event_simps [simp]:
  "get_function_calls (tool_event nm) = [\<lparr>name = Some nm\<rparr>]"
  "\<not> is_final_response (tool_event nm)"
  "\<not> answers (tool_event nm)"
  by (simp_all add: tool_event_def answers_def)

lemma final_event_simps [simp]:
  "get_function_calls (final_event t) = []"
  "is_final_response (final_event t)"
  "answers (final_event t)"
  "first_text (final_event t) = Some t"
  by (simp_all add: final_event_def answers_def first_text_def)

lemma final_event_with_call_simps [simp]:
  "get_function_calls (final_event_with_call nm t) = [\<lparr>name = Some nm\<rparr>]"
  "is_final_response (final_event_with_call nm t)"
  "\<not> answers (final_event_with_call nm t)"
  "first_text (final_event_with_call nm t) = Some t"
  by (simp_all add: final_event_with_call_def answers_def first_text_def)

lemma strip_examples:
  "strip [0x20, 0x09, 0x3000] = []"
  "strip (ascii '' ok '') = ascii ''ok''"
  "strip (ascii ''b  '') = ascii ''b''"
  by (simp_all add: strip_def isspace_def ascii_def)

lemma isspace_examples:
  "isspace 0x20" "isspace 0x09" "isspace 0x3000" "\<not> isspace 0x6F" "\<not> isspace 0x6B"
  by (simp_all add: isspace_def)

lemma unicode_lower_scripted [simp]: "unicode_lower (scripted_runtime s) = (\<lambda>x. x)"
  by (simp add: scripted_runtime_def)

lemma strip_line_examples:
  "strip (ascii '' SAIR '') = ascii ''SAIR''"
  "strip (ascii ''oi'') = ascii ''oi''"
  "strip (ascii '' oi '') = ascii ''oi''"
  by (simp_all add: strip_def isspace_def ascii_def)

lemma lower_examples:
  "lower ul (ascii ''SAIR'') = ascii ''sair''"
  "lower ul (ascii ''oi'') = ascii ''oi''"
  "map ascii_lower (ascii ''Quit'') = ascii ''quit''"
  by (simp_all add: lower_def ascii_lower_def ascii_def)

lemma exit_phrase_examples:
  "ascii ''sair'' \<in> set exit_phrases"
  "ascii ''quit'' \<in> set exit_phrases"
  "ascii ''oi'' \<notin> set exit_phrases"
  by (simp_all add: exit_phrases_def ascii_def)

lemma blank_examples:
  "list_all isspace (ascii ''   '')" "\<not> list_all isspace (ascii '' oi '')"
  "ascii ''oi'' \<noteq> []"
  by (simp_all add: isspace_def ascii_def)

subsection \<open>Interrupts, the loop over several inputs, and the process\<close>

lemma strip_aqui:
  "strip (ascii ''Aqui est'' @ [0xE3] @ ascii ''o os pets'')
     = ascii ''Aqui est'' @ [0xE3] @ ascii ''o os pets''"
  by (simp add: strip_def isspace_def ascii_def)

lemma loop_body_interrupt:
  "loop_body rt (InputRaises KeyboardInterrupt) w
     = (Break, print interrupted newline (print prompt [] w))"
  by (simp add: loop_body_def inner_except_def)

lemma first_sigint:
  "asyncio_sigint rt \<Longrightarrow> interrupt_count w = 0 \<Longrightarrow>
   input_call rt (Sigint r) w = input_call rt r (w\<lparr>interrupt_count := 1, must_cancel := True\<rparr>)"
  by (simp add: Let_def)

lemma later_sigint:
  "asyncio_sigint rt \<Longrightarrow> 0 < interrupt_count w \<Longrightarrow>
   input_call rt (Sigint r) w
     = (Some (Inl KeyboardInterrupt), w\<lparr>interrupt_count := interrupt_count w + 1\<rparr>)"
  by (simp add: Let_def)

lemma default_sigint:
  "\<not> asyncio_sigint rt \<Longrightarrow> input_call rt (Sigint r) w = (Some (Inl KeyboardInterrupt), w)"
  by simp

lemma sigint_default_handler_ends_loop:
  "\<not> asyncio_sigint rt \<Longrightarrow>
   loop_body rt (Sigint r) w = (Break, print interrupted newline (print prompt [] w))"
  by (simp add: loop_body_def inner_except_def)

lemma input_call_keeps:
  "run_async_calls (snd (input_call rt inp w)) = run_async_calls w \<and>
   sessions (snd (input_call rt inp w)) = sessions w \<and>
   stdout (snd (input_call rt inp w)) = stdout w"
  by (induction inp arbitrary: w) (simp_all add: Let_def)

lemma loop_body_line:
  "input_call rt inp (print prompt [] w) = (Some (Inr raw), w0) \<Longrightarrow>
   loop_body rt inp w =
     (if lower (unicode_lower rt) (strip raw) \<in> set exit_phrases then
        (Break, print farewell newline w0)
      else if strip raw = [] then (Continue, print warning newline w0)
      else
        (case call_agent rt (strip raw) (print processing [] w0) of
           (Inr response, w2) \<Rightarrow> (Continue, print (response_line response) newline w2)
         | (Inl e, w2) \<Rightarrow> inner_except e w2))"
  by (simp add: loop_body_def Let_def)

lemma consume_keeps_must_cancel: "must_cancel (snd (consume s t w)) = must_cancel w"
proof (induction s arbitrary: t w)
  case (Yield ev rest)
  show ?case
  proof (cases ev rule: consume_cases)
    case (tool call calls)
    then show ?thesis using Yield.IH [of t "print (tool_notice call) newline w"]
      by (simp only: consume_Yield_tool must_cancel_print)
  next
    case (answer x)
    then show ?thesis using Yield.IH by (simp only: consume_Yield_answers)
  next
    case none
    then show ?thesis by (simp only: consume_Yield_answers_None snd_conv)
  next
    case other
    then show ?thesis using Yield.IH by (simp add: consume_Yield_other del: consume.simps)
  qed
qed simp_all

lemma call_agent_must_cancel: "\<not> must_cancel (snd (call_agent rt query w))"
proof -
  let ?w1 = "w\<lparr>run_async_calls := run_async_calls w @ [dispatch rt query],
                must_cancel := False\<rparr>"
  obtain r w2 where c: "consume (turn_stream rt query w) fallback_text ?w1 = (r, w2)"
    by (cases "consume (turn_stream rt query w) fallback_text ?w1")
  have "\<not> must_cancel w2"
    using consume_keeps_must_cancel [of "turn_stream rt query w" fallback_text ?w1] c by simp
  moreover have "snd (call_agent rt query w) = w2"
    using c by (simp add: call_agent_unfold split: sum.splits exn.splits)
  ultimately show ?thesis by simp
qed

lemma scripted_runtime_started [simp]:
  "environ (scripted_runtime s) GOOGLE_API_KEY = Some (ascii ''key'')"
  "construction_raises (scripted_runtime s) = None"
  "setup_raises (scripted_runtime s) = None"
  "asyncio_sigint (scripted_runtime s)"
  by (simp_all add: scripted_runtime_def)

lemma run_async_calls_fold_print:
  "run_async_calls (fold (\<lambda>l. print l newline) ls w) = run_async_calls w"
  by (induction ls arbitrary: w) simp_all

lemma interrupt_count_fold_print:
  "interrupt_count (fold (\<lambda>l. print l newline) ls w) = interrupt_count w"
  by (induction ls arbitrary: w) simp_all

lemma must_cancel_fold_print:
  "must_cancel (fold (\<lambda>l. print l newline) ls w) = must_cancel w"
  by (induction ls arbitrary: w) simp_all

lemma loop_entry_simps [simp]:
  "run_async_calls (loop_entry rt) = []" "interrupt_count (loop_entry rt) = 0"
  "\<not> must_cancel (loop_entry rt)"
  by (simp_all add: loop_entry_def setup_session_and_runner_def run_async_calls_fold_print
      interrupt_count_fold_print must_cancel_fold_print split: option.splits)

lemma interactive_terminal_started:
  assumes "setup_raises rt = None"
  shows "interactive_terminal rt inps initial_world =
     (case while_loop rt inps (loop_entry rt) of
        (AwaitingInput, w) \<Rightarrow> (Running, w)
      | (Exiting, w) \<Rightarrow> (Returned, w)
      | (Raising e, w) \<Rightarrow> outer_except e w)"
  using assms
  by (simp add: interactive_terminal_def loop_entry_def setup_session_and_runner_def Let_def)

lemma terminal_interativo_started:
  assumes "environ rt GOOGLE_API_KEY \<noteq> None" and "environ rt GOOGLE_API_KEY \<noteq> Some []"
    and "construction_raises rt = None"
  shows "terminal_interativo rt inps = main_block rt inps initial_world"
  using assms by (auto simp: terminal_interativo_def)

lemma scripted_terminal:
  "terminal_interativo (scripted_runtime s) inps = main_block (scripted_runtime s) inps initial_world"
  by (rule terminal_interativo_started) (simp_all add: ascii_def)

lemma while_loop_turn:
  assumes "strip raw \<noteq> []" and "lower (unicode_lower rt) (strip raw) \<notin> set exit_phrases"
    and "fst (consume (turn_stream rt (strip raw) w) fallback_text w) = Inr t"
  shows "\<exists>w1. while_loop rt (Line raw # inps) w = while_loop rt inps w1
     \<and> run_async_calls w1 = run_async_calls w @ [dispatch rt (strip raw)]
     \<and> \<not> must_cancel w1"
proof -
  let ?w0 = "print processing [] (print prompt [] w)"
  have "fst (consume (turn_stream rt (strip raw) ?w0) fallback_text w) = Inr t"
    using assms(3) by simp
  then have "fst (call_agent rt (strip raw) ?w0) = Inr t" by (rule call_agent_returns)
  then obtain w2 where c: "call_agent rt (strip raw) ?w0 = (Inr t, w2)"
    by (cases "call_agent rt (strip raw) ?w0") simp
  then have b: "loop_body rt (Line raw) w = (Continue, print (response_line t) newline w2)"
    by (simp add: loop_body_turn [OF assms(1,2)])
  then have "run_async_calls (print (response_line t) newline w2)
      = run_async_calls w @ [dispatch rt (strip raw)]"
    using loop_body_turn_calls [OF assms(1,2), of w] by simp
  moreover have "\<not> must_cancel (print (response_line t) newline w2)"
    using call_agent_must_cancel [of rt "strip raw" ?w0] c by simp
  ultimately show ?thesis using b
    by (intro exI [of _ "print (response_line t) newline w2"]) simp
qed

text \<open>
  A SIGINT during a turn: the turn is cancelled, neither handler of the loop applies,
  and the script ends with the message of the outer handler of the main block.
\<close>

lemma sigint_during_turn:
  "fst (terminal_interativo (scripted_runtime Interrupt) [Line (ascii ''oi''), Line (ascii ''oi'')])
     = Returned
   \<and> stdout (snd (terminal_interativo (scripted_runtime Interrupt)
         [Line (ascii ''oi''), Line (ascii ''oi'')]))
       = stdout (loop_entry (scripted_runtime Interrupt)) @
         [[0x0A, 0x1F5E3, 0xFE0F] @ ascii ''  Voc'' @ [0xEA] @ ascii '': '',
          [0x1F916] @ ascii '' Agente: Processando...'',
          [0x0A, 0x1F44B] @ ascii '' Programa encerrado.'' @ [0x0A]]"
proof -
  let ?rt = "scripted_runtime Interrupt"
  let ?w = "print processing [] (print prompt [] (loop_entry ?rt))"
  let ?w2 = "?w\<lparr>run_async_calls := [dispatch ?rt (ascii ''oi'')], must_cancel := False,
               interrupt_count := 1\<rparr>"
  have c: "call_agent ?rt (ascii ''oi'') ?w = (Inl CancelledError, ?w2)"
    by (simp add: call_agent_unfold CancelledError_def)
  have x: "lower (unicode_lower ?rt) (strip (ascii ''oi'')) \<notin> set exit_phrases"
    "strip (ascii ''oi'') \<noteq> []"
    by (simp_all add: strip_line_examples lower_examples exit_phrase_examples blank_examples)
  have b: "loop_body ?rt (Line (ascii ''oi'')) (loop_entry ?rt) = (Propagate CancelledError, ?w2)"
    using c by (simp add: loop_body_turn [OF x(2,1)] strip_line_examples inner_except_def
        CancelledError_def)
  have r: "terminal_interativo ?rt [Line (ascii ''oi''), Line (ascii ''oi'')]
      = (Returned, print program_ended newline ?w2)"
    by (simp add: scripted_terminal main_block_def asyncio_run_def interactive_terminal_started b
        task_cancelled_def outer_except_def CancelledError_def)
  show ?thesis unfolding r
    by (simp add: prompt_def processing_def program_ended_def newline_def)
qed

subsection \<open>The invariant of the identifiers\<close>

lemma ids_ok_print [simp]: "ids_ok rt (print s e w) = ids_ok rt w"
  by (simp add: ids_ok_def)

lemma ids_ok_must_cancel [simp]: "ids_ok rt (w\<lparr>must_cancel := b\<rparr>) = ids_ok rt w"
  by (simp add: ids_ok_def)

lemma ids_ok_cong:
  "run_async_calls w' = run_async_calls w \<Longrightarrow> sessions w' = sessions w \<Longrightarrow>
   ids_ok rt w' = ids_ok rt w"
  by (simp add: ids_ok_def)

lemma ids_ok_fold_print: "ids_ok rt (fold (\<lambda>l. print l newline) ls w) = ids_ok rt w"
  by (induction ls arbitrary: w) simp_all

lemma sessions_fold_print: "sessions (fold (\<lambda>l. print l newline) ls w) = sessions w"
  by (induction ls arbitrary: w) simp_all

lemma ids_ok_initial: "ids_ok rt initial_world"
  by (simp add: ids_ok_def initial_world_def)

lemma dispatch_ids:
  "user_id (dispatch rt query) = USER_ID_OPENAPI" "session_id (dispatch rt query) = SESSION_ID_OPENAPI rt"
  by (simp_all add: dispatch_def)

lemma ids_ok_inner_except: "ids_ok rt (snd (inner_except e w)) = ids_ok rt w"
  by (rule ids_ok_cong) (simp_all add: inner_except_keeps)

lemma ids_ok_call_agent:
  assumes "ids_ok rt w"
  shows "ids_ok rt (snd (call_agent rt query w))"
  using assms call_agent_world [of rt query w] by (simp add: ids_ok_def dispatch_ids)

lemma ids_ok_loop_body:
  assumes "ids_ok rt w"
  shows "ids_ok rt (snd (loop_body rt inp w))"
proof -
  obtain r w0 where i: "input_call rt inp (print prompt [] w) = (r, w0)"
    by (cases "input_call rt inp (print prompt [] w)")
  have "ids_ok rt w0 = ids_ok rt (print prompt [] w)"
    using input_call_keeps [of rt inp "print prompt [] w"] i by (intro ids_ok_cong) simp_all
  then have w0: "ids_ok rt w0" using assms by simp
  show ?thesis
  proof (cases r)
    case None
    then show ?thesis using i w0 by (simp add: loop_body_def)
  next
    case (Some v)
    show ?thesis
    proof (cases v)
      case (Inl e)
      then show ?thesis using i Some w0 by (simp add: loop_body_def ids_ok_inner_except)
    next
      case (Inr raw)
      let ?w1 = "print processing [] w0"
      obtain a w2 where c: "call_agent rt (strip raw) ?w1 = (a, w2)"
        by (cases "call_agent rt (strip raw) ?w1")
      have "ids_ok rt ?w1" using w0 by simp
      then have w2: "ids_ok rt w2" using ids_ok_call_agent [of rt ?w1 "strip raw"] c by simp
      have l: "input_call rt inp (print prompt [] w) = (Some (Inr raw), w0)"
        using i Some Inr by simp
      show ?thesis
        using w0 w2 c by (cases a) (simp_all add: loop_body_line [OF l] ids_ok_inner_except)
    qed
  qed
qed

lemma ids_ok_while_loop: "ids_ok rt w \<Longrightarrow> ids_ok rt (snd (while_loop rt inps w))"
proof (induction inps arbitrary: w)
  case Nil
  then show ?case by simp
next
  case (Cons inp inps)
  obtain c w1 where b: "loop_body rt inp w = (c, w1)" by (cases "loop_body rt inp w")
  then have w1: "ids_ok rt w1" using ids_ok_loop_body [OF Cons.prems, of inp] by simp
  show ?case using b w1 Cons.IH [OF w1] by (cases c) simp_all
qed

lemma ids_ok_outer_except: "ids_ok rt (snd (outer_except e w)) = ids_ok rt w"
  by (cases e) (simp_all add: outer_except_def)

lemma ids_ok_setup:
  assumes "ids_ok rt w" and "sessions w = []"
  shows "ids_ok rt (snd (setup_session_and_runner rt w))"
  using assms by (simp add: setup_session_and_runner_def ids_ok_def split: option.splits)

lemma ids_ok_interactive_terminal:
  assumes "ids_ok rt w" and "sessions w = []"
  shows "ids_ok rt (snd (interactive_terminal rt inps w))"
proof -
  let ?w1 = "fold (\<lambda>l. print l newline) banner w"
  have s1: "sessions ?w1 = []"
    using assms(2) by (simp add: sessions_fold_print)
  have "ids_ok rt ?w1" using assms(1) by (simp add: ids_ok_fold_print)
  then have w2: "ids_ok rt (snd (setup_session_and_runner rt ?w1))"
    using s1 by (rule ids_ok_setup)
  obtain r w2 where su: "setup_session_and_runner rt ?w1 = (r, w2)"
    by (cases "setup_session_and_runner rt ?w1")
  then have k2: "ids_ok rt w2" using w2 by simp
  show ?thesis
  proof (cases r)
    case (Inl e)
    then show ?thesis using su k2 by (simp add: interactive_terminal_def ids_ok_outer_except)
  next
    case (Inr u)
    let ?w3 = "print type_message newline (print initialised_message newline w2)"
    obtain st w4 where wl: "while_loop rt inps ?w3 = (st, w4)" by (cases "while_loop rt inps ?w3")
    have "ids_ok rt ?w3" using k2 by simp
    then have "ids_ok rt w4" using ids_ok_while_loop [of rt ?w3 inps] wl by simp
    then show ?thesis using su Inr wl
      by (cases st) (simp_all add: interactive_terminal_def ids_ok_outer_except)
  qed
qed

lemma ids_ok_task_cancelled: "ids_ok rt (snd (task_cancelled w)) = ids_ok rt w"
  by (simp add: task_cancelled_def)

lemma ids_ok_asyncio_run:
  assumes "ids_ok rt w" and "sessions w = []"
  shows "ids_ok rt (snd (asyncio_run rt inps w))"
proof -
  obtain st w1 where it: "interactive_terminal rt inps w = (st, w1)"
    by (cases "interactive_terminal rt inps w")
  then have "ids_ok rt w1" using ids_ok_interactive_terminal [OF assms, of inps] by simp
  then show ?thesis using it
    by (simp add: asyncio_run_def ids_ok_task_cancelled split: process_state.splits exn.splits)
qed

lemma ids_ok_main_block:
  assumes "ids_ok rt w" and "sessions w = []"
  shows "ids_ok rt (snd (main_block rt inps w))"
proof -
  obtain st w1 where it: "asyncio_run rt inps w = (st, w1)"
    by (cases "asyncio_run rt inps w")
  then have "ids_ok rt w1" using ids_ok_asyncio_run [OF assms, of inps] by simp
  then show ?thesis using it
    by (simp add: main_block_def split: process_state.splits exn.splits)
qed

lemma ids_ok_terminal_interativo: "ids_ok rt (snd (terminal_interativo rt inps))"
proof -
  have "sessions initial_world = []" by (simp add: initial_world_def)
  then have "ids_ok rt (snd (main_block rt inps initial_world))"
    using ids_ok_initial ids_ok_main_block by blast
  then show ?thesis
    by (simp add: terminal_interativo_def ids_ok_initial split: option.splits)
qed

section \<open>Properties of a turn\<close>

text \<open>
  C2. When the event sequence of a turn ends without raising and contains no event
  marked as a final response, \<open>call_agent\<close> returns the fixed fallback sentence, which
  is not the empty string.
\<close>

theorem no_final_event_gives_fallback:
  assumes "raised_by (turn_stream rt query w) = None"
    and "\<forall>ev \<in> set (events_of (turn_stream rt query w)). \<not> is_final_response ev"
  shows "fst (call_agent rt query w) = Inr fallback_text \<and> fallback_text \<noteq> []"
proof -
  have "\<forall>ev \<in> set (events_of (turn_stream rt query w)). \<not> answers ev"
    using assms(2) not_final_not_answers by blast
  then have "fst (consume (turn_stream rt query w) fallback_text w) = Inr fallback_text"
    using assms(1) by (rule consume_no_answer [rotated])
  then have "fst (call_agent rt query w) = Inr fallback_text"
    by (rule call_agent_returns)
  then show ?thesis using fallback_text_not_empty by simp
qed

theorem no_final_event_gives_fallback_witness:
  "raised_by (turn_stream (scripted_runtime (Yield (tool_event (ascii ''listPets'')) StopAsyncIteration))
      (ascii ''oi'') initial_world) = None
   \<and> list_all (\<lambda>ev. \<not> is_final_response ev)
       (events_of (turn_stream (scripted_runtime (Yield (tool_event (ascii ''listPets'')) StopAsyncIteration))
          (ascii ''oi'') initial_world))
   \<and> fst (call_agent (scripted_runtime (Yield (tool_event (ascii ''listPets'')) StopAsyncIteration))
       (ascii ''oi'') initial_world) = Inr fallback_text
   \<and> fallback_text \<noteq> []"
  using no_final_event_gives_fallback
    [of "scripted_runtime (Yield (tool_event (ascii ''listPets'')) StopAsyncIteration)"
        "ascii ''oi''" initial_world]
  by (simp add: turn_stream_def scripted_runtime_def tool_event_def)

text \<open>
  C10. The text of the final response is stripped of leading and trailing white space
  before it is returned: when the only final event of a turn answers (it carries no
  function call and its content has parts) and the text of its first part is \<open>x\<close>,
  \<open>call_agent\<close> returns \<open>strip x\<close>; for a text of white space only this is the empty
  string and not the fallback sentence; and a returned text that is not empty neither
  starts nor ends with white space.
\<close>

theorem final_text_is_stripped:
  assumes "raised_by (turn_stream rt query w) = None"
    and "events_of (turn_stream rt query w) = pre @ ev # post"
    and "\<forall>e \<in> set pre \<union> set post. \<not> is_final_response e"
    and "answers ev" and "first_text ev = Some x"
  shows "fst (call_agent rt query w) = Inr (strip x)
     \<and> (list_all isspace x \<longrightarrow> fst (call_agent rt query w) = Inr [] \<and> [] \<noteq> fallback_text)
     \<and> (strip x \<noteq> [] \<longrightarrow> \<not> isspace (hd (strip x)) \<and> \<not> isspace (last (strip x)))"
proof -
  have pre: "\<forall>e \<in> set pre. answers e \<longrightarrow> first_text e \<noteq> None"
    and post: "\<forall>e \<in> set post. \<not> answers e"
    using assms(3) not_final_not_answers by auto
  have "fst (consume (turn_stream rt query w) fallback_text w) = Inr (strip x)"
    using assms(1,2) pre assms(4,5) post by (rule consume_last_answer)
  then have r: "fst (call_agent rt query w) = Inr (strip x)"
    by (rule call_agent_returns)
  moreover have "list_all isspace x \<longrightarrow> fst (call_agent rt query w) = Inr [] \<and> [] \<noteq> fallback_text"
    using r strip_all_space [of x] fallback_text_not_empty by auto
  moreover have "strip x \<noteq> [] \<longrightarrow> \<not> isspace (hd (strip x)) \<and> \<not> isspace (last (strip x))"
    using strip_ends by blast
  ultimately show ?thesis by blast
qed

theorem final_text_is_stripped_witness:
  "fst (call_agent
          (scripted_runtime (Yield (tool_event (ascii ''listPets''))
             (Yield (final_event [0x20, 0x09, 0x3000]) StopAsyncIteration)))
          (ascii ''oi'') initial_world) = Inr []
   \<and> list_all isspace [0x20, 0x09, 0x3000]
   \<and> fst (call_agent
          (scripted_runtime (Yield (final_event (ascii '' ok '')) StopAsyncIteration))
          (ascii ''oi'') initial_world) = Inr (ascii ''ok'')
   \<and> \<not> isspace (hd (ascii ''ok'')) \<and> \<not> isspace (last (ascii ''ok''))"
proof -
  let ?rt1 = "scripted_runtime (Yield (tool_event (ascii ''listPets''))
             (Yield (final_event [0x20, 0x09, 0x3000]) StopAsyncIteration))"
  let ?rt2 = "scripted_runtime (Yield (final_event (ascii '' ok '')) StopAsyncIteration)"
  let ?q = "ascii ''oi''"
  have a1: "raised_by (turn_stream ?rt1 ?q initial_world) = None" by simp
  have a2: "events_of (turn_stream ?rt1 ?q initial_world)
            = [tool_event (ascii ''listPets'')] @ final_event [0x20, 0x09, 0x3000] # []" by simp
  have a3: "\<forall>e \<in> set [tool_event (ascii ''listPets'')] \<union> set []. \<not> is_final_response e" by simp
  have sp: "list_all isspace [0x20, 0x09, 0x3000]" by (simp add: isspace_examples)
  have b1: "raised_by (turn_stream ?rt2 ?q initial_world) = None" by simp
  have b2: "events_of (turn_stream ?rt2 ?q initial_world) = [] @ final_event (ascii '' ok '') # []"
    by simp
  have b3: "\<forall>e \<in> set [] \<union> set []. \<not> is_final_response e" by simp
  have ne: "ascii ''ok'' \<noteq> []" by (simp add: ascii_def)
  show ?thesis
    using final_text_is_stripped [OF a1 a2 a3 final_event_simps(3,4)]
      final_text_is_stripped [OF b1 b2 b3 final_event_simps(3,4)] sp ne
    by (simp add: strip_examples)
qed

text \<open>
  C1, as stated, fails: an event that is marked final and carries text, but also
  carries a function call, takes the first branch of the loop, and its text is not
  returned. Here the only event of the turn is such an event with the text ok, and
  \<open>call_agent\<close> returns the fallback sentence.
\<close>

theorem final_event_with_tool_call_counterexample:
  "events_of (turn_stream
      (scripted_runtime (Yield (final_event_with_call (ascii ''listPets'') (ascii ''ok'')) StopAsyncIteration))
      (ascii ''oi'') initial_world) = [final_event_with_call (ascii ''listPets'') (ascii ''ok'')]
   \<and> raised_by (turn_stream
      (scripted_runtime (Yield (final_event_with_call (ascii ''listPets'') (ascii ''ok'')) StopAsyncIteration))
      (ascii ''oi'') initial_world) = None
   \<and> is_final_response (final_event_with_call (ascii ''listPets'') (ascii ''ok''))
   \<and> first_text (final_event_with_call (ascii ''listPets'') (ascii ''ok'')) = Some (ascii ''ok'')
   \<and> fst (call_agent
      (scripted_runtime (Yield (final_event_with_call (ascii ''listPets'') (ascii ''ok'')) StopAsyncIteration))
      (ascii ''oi'') initial_world) = Inr fallback_text
   \<and> fallback_text \<noteq> ascii ''ok''"
proof -
  let ?ev = "final_event_with_call (ascii ''listPets'') (ascii ''ok'')"
  have "fst (consume (Yield ?ev StopAsyncIteration) fallback_text w) = Inr fallback_text" for w
    by (simp add: final_event_with_call_def)
  then have "fst (call_agent (scripted_runtime (Yield ?ev StopAsyncIteration)) (ascii ''oi'')
      initial_world) = Inr fallback_text"
    by (intro call_agent_returns) simp
  moreover have "fallback_text \<noteq> ascii ''ok''"
    by (simp add: fallback_text_def ascii_def)
  ultimately show ?thesis by simp
qed

text \<open>
  C1, amended. When the event sequence of a turn ends without raising, \<open>ev\<close> is an event
  of it that is marked final, carries no function call and has the text \<open>x\<close> in its
  first part, no later event answers, and every earlier event that answers has text in
  its first part, then \<open>call_agent\<close> returns \<open>x\<close> stripped of surrounding white space.
\<close>

theorem last_answering_event_gives_output:
  assumes "raised_by (turn_stream rt query w) = None"
    and "events_of (turn_stream rt query w) = pre @ ev # post"
    and "\<forall>e \<in> set pre. answers e \<longrightarrow> first_text e \<noteq> None"
    and "is_final_response ev" and "get_function_calls ev = []" and "first_text ev = Some x"
    and "\<forall>e \<in> set post. \<not> answers e"
  shows "fst (call_agent rt query w) = Inr (strip x)"
proof -
  have "answers ev" using assms(5,4,6) by (rule answers_first_text)
  then have "fst (consume (turn_stream rt query w) fallback_text w) = Inr (strip x)"
    using assms(1,2,3,6,7) consume_last_answer by blast
  then show ?thesis by (rule call_agent_returns)
qed

theorem last_answering_event_gives_output_witness:
  "fst (call_agent
          (scripted_runtime
             (Yield (final_event (ascii '' a ''))
               (Yield (tool_event (ascii ''listPets''))
                 (Yield (final_event (ascii ''b  ''))
                   (Yield (final_event_with_call (ascii ''createPet'') (ascii ''c'')) StopAsyncIteration)))))
          (ascii ''oi'') initial_world) = Inr (ascii ''b'')"
proof -
  let ?rt = "scripted_runtime
             (Yield (final_event (ascii '' a ''))
               (Yield (tool_event (ascii ''listPets''))
                 (Yield (final_event (ascii ''b  ''))
                   (Yield (final_event_with_call (ascii ''createPet'') (ascii ''c'')) StopAsyncIteration))))"
  have a1: "raised_by (turn_stream ?rt (ascii ''oi'') initial_world) = None" by simp
  have a2: "events_of (turn_stream ?rt (ascii ''oi'') initial_world)
      = [final_event (ascii '' a ''), tool_event (ascii ''listPets'')] @ final_event (ascii ''b  '')
        # [final_event_with_call (ascii ''createPet'') (ascii ''c'')]" by simp
  have a3: "\<forall>e \<in> set [final_event (ascii '' a ''), tool_event (ascii ''listPets'')].
      answers e \<longrightarrow> first_text e \<noteq> None" by simp
  have a7: "\<forall>e \<in> set [final_event_with_call (ascii ''createPet'') (ascii ''c'')]. \<not> answers e"
    by simp
  show ?thesis
    using last_answering_event_gives_output
      [OF a1 a2 a3 final_event_simps(2,1,4) a7]
    by (simp add: strip_examples)
qed

section \<open>Properties of the interaction loop\<close>







text \<open>
  C8. The runner yields an event whose first function call is named listPets and then
  a final event with the text of the scenario (Aqui estao os pets, the first a of
  estao with a tilde, code point E3). The terminal shows, chunk by chunk: the prompt,
  the processing indicator, the progress notice with the name listPets, and the
  response line that carries the text. The loop continues, and \<open>call_agent\<close> returns
  what it returns for the final event alone, so the notice changes nothing else.
\<close>

theorem tool_call_then_final_event:
  assumes "strip raw \<noteq> []" and "lower (unicode_lower rt) (strip raw) \<notin> set exit_phrases"
    and "turn_stream rt (strip raw) w = Yield tool_ev (Yield final_ev StopAsyncIteration)"
    and "get_function_calls tool_ev = \<lparr>name = Some (ascii ''listPets'')\<rparr> # calls"
    and "get_function_calls final_ev = []" and "is_final_response final_ev"
    and "first_text final_ev = Some (ascii ''Aqui est'' @ [0xE3] @ ascii ''o os pets'')"
  shows "fst (call_agent rt (strip raw) (print processing [] (print prompt [] w)))
           = Inr (ascii ''Aqui est'' @ [0xE3] @ ascii ''o os pets'')
     \<and> fst (loop_body rt (Line raw) w) = Continue
     \<and> stdout (snd (loop_body rt (Line raw) w))
         = stdout w @
           [[0x0A, 0x1F5E3, 0xFE0F] @ ascii ''  Voc'' @ [0xEA] @ ascii '': '',
            [0x1F916] @ ascii '' Agente: Processando...'',
            [0x1F527] @ ascii '' Executando: listPets'' @ [0x0A],
            [0x0D, 0x1F916] @ ascii '' Agente: Aqui est'' @ [0xE3] @ ascii ''o os pets'' @ [0x0A]]
     \<and> fst (consume (Yield tool_ev (Yield final_ev StopAsyncIteration)) fallback_text w)
         = fst (consume (Yield final_ev StopAsyncIteration) fallback_text w)"
proof -
  let ?t = "ascii ''Aqui est'' @ [0xE3] @ ascii ''o os pets''"
  let ?w0 = "print processing [] (print prompt [] w)"
  let ?w1 = "?w0\<lparr>run_async_calls := run_async_calls ?w0 @ [dispatch rt (strip raw)],
                must_cancel := False\<rparr>"
  let ?n = "tool_notice \<lparr>name = Some (ascii ''listPets'')\<rparr>"
  have a: "answers final_ev" using assms(5,6,7) by (rule answers_first_text)
  have fin: "consume (Yield final_ev StopAsyncIteration) fallback_text v = (Inr ?t, v)" for v
  proof -
    have "consume (Yield final_ev StopAsyncIteration) fallback_text v
        = consume StopAsyncIteration (strip ?t) v"
      using a assms(7) by (rule consume_Yield_answers)
    then show ?thesis unfolding strip_aqui by simp
  qed
  have c: "consume (Yield tool_ev (Yield final_ev StopAsyncIteration)) fallback_text v
      = (Inr ?t, print ?n newline v)" for v
    using assms(4) fin by (simp only: consume_Yield_tool)
  have ca: "call_agent rt (strip raw) ?w0 = (Inr ?t, print ?n newline ?w1)"
    by (simp add: call_agent_unfold assms(3) c del: consume.simps)
  have lb: "loop_body rt (Line raw) w
      = (Continue, print (response_line ?t) newline (print ?n newline ?w1))"
    by (simp add: loop_body_turn [OF assms(1,2)] ca)
  have out: "stdout (snd (loop_body rt (Line raw) w))
         = stdout w @ [prompt, processing, ?n @ newline, response_line ?t @ newline]"
    by (simp add: lb)
  have shown: "[prompt, processing, ?n @ newline, response_line ?t @ newline]
         = [[0x0A, 0x1F5E3, 0xFE0F] @ ascii ''  Voc'' @ [0xEA] @ ascii '': '',
            [0x1F916] @ ascii '' Agente: Processando...'',
            [0x1F527] @ ascii '' Executando: listPets'' @ [0x0A],
            [0x0D, 0x1F916] @ ascii '' Agente: Aqui est'' @ [0xE3] @ ascii ''o os pets'' @ [0x0A]]"
    by (simp add: prompt_def processing_def tool_notice_def format_value_def response_line_def
        newline_def ascii_def)
  show ?thesis using ca lb c [of w] fin [of w] unfolding out shown by simp
qed

theorem tool_call_then_final_event_witness:
  "fst (loop_body (scripted_runtime (Yield (tool_event (ascii ''listPets''))
         (Yield (final_event (ascii ''Aqui est'' @ [0xE3] @ ascii ''o os pets'')) StopAsyncIteration)))
       (Line (ascii ''mostre os pets'')) initial_world) = Continue
   \<and> stdout (snd (loop_body (scripted_runtime (Yield (tool_event (ascii ''listPets''))
         (Yield (final_event (ascii ''Aqui est'' @ [0xE3] @ ascii ''o os pets'')) StopAsyncIteration)))
       (Line (ascii ''mostre os pets'')) initial_world))
      = [[0x0A, 0x1F5E3, 0xFE0F] @ ascii ''  Voc'' @ [0xEA] @ ascii '': '',
         [0x1F916] @ ascii '' Agente: Processando...'',
         [0x1F527] @ ascii '' Executando: listPets'' @ [0x0A],
         [0x0D, 0x1F916] @ ascii '' Agente: Aqui est'' @ [0xE3] @ ascii ''o os pets'' @ [0x0A]]"
proof -
  let ?rt = "scripted_runtime (Yield (tool_event (ascii ''listPets''))
         (Yield (final_event (ascii ''Aqui est'' @ [0xE3] @ ascii ''o os pets'')) StopAsyncIteration))"
  let ?raw = "ascii ''mostre os pets''"
  have st: "strip ?raw = ?raw" by (simp add: strip_def isspace_def ascii_def)
  have h1: "strip ?raw \<noteq> []" unfolding st by (simp add: ascii_def)
  have h2: "lower (unicode_lower ?rt) (strip ?raw) \<notin> set exit_phrases"
    unfolding st by (simp add: lower_def ascii_lower_def exit_phrases_def ascii_def)
  have h3: "turn_stream ?rt (strip ?raw) initial_world
      = Yield (tool_event (ascii ''listPets''))
          (Yield (final_event (ascii ''Aqui est'' @ [0xE3] @ ascii ''o os pets'')) StopAsyncIteration)"
    by simp
  show ?thesis
    using tool_call_then_final_event
      [OF h1 h2 h3 tool_event_simps(1) final_event_simps(1,2,4)]
    by simp
qed

text \<open>
  C9. The loop has a handler for KeyboardInterrupt that prints a farewell and ends the
  loop, and under the default SIGINT handler an interrupt at the prompt reaches it
  (lemma \<open>sigint_default_handler_ends_loop\<close>). Under the handler that \<open>asyncio.run\<close>
  installs the script does otherwise; it is evaluated here on three runs that start
  with a SIGINT at the first prompt. After the signal alone nothing but the prompt has
  been printed and the script is still waiting in \<open>input()\<close>. After a second SIGINT the
  farewell of the loop is printed, but the main task ends cancelled and the outer
  handler of the main block prints its own message after it. When a query is entered
  after the signal, the turn is cancelled, the loop is left without any farewell and
  only the message of the outer handler follows the processing indicator.
\<close>

theorem sigint_at_prompt_under_asyncio_run:
  "asyncio_sigint (scripted_runtime StopAsyncIteration)
   \<and> fst (terminal_interativo (scripted_runtime StopAsyncIteration) [Sigint Waiting]) = Running
   \<and> stdout (snd (terminal_interativo (scripted_runtime StopAsyncIteration) [Sigint Waiting]))
       = stdout (loop_entry (scripted_runtime StopAsyncIteration)) @
         [[0x0A, 0x1F5E3, 0xFE0F] @ ascii ''  Voc'' @ [0xEA] @ ascii '': '']
   \<and> fst (terminal_interativo (scripted_runtime StopAsyncIteration) [Sigint (Sigint Waiting)])
       = Returned
   \<and> stdout (snd (terminal_interativo (scripted_runtime StopAsyncIteration)
         [Sigint (Sigint Waiting)]))
       = stdout (loop_entry (scripted_runtime StopAsyncIteration)) @
         [[0x0A, 0x1F5E3, 0xFE0F] @ ascii ''  Voc'' @ [0xEA] @ ascii '': '',
          [0x0A, 0x1F44B] @ ascii '' Interrompido pelo usu'' @ [0xE1] @ ascii ''rio. Tchau!'' @ [0x0A],
          [0x0A, 0x1F44B] @ ascii '' Programa encerrado.'' @ [0x0A]]
   \<and> fst (terminal_interativo (scripted_runtime StopAsyncIteration)
         [Sigint (Line (ascii ''oi'')), Line (ascii ''oi'')]) = Returned
   \<and> stdout (snd (terminal_interativo (scripted_runtime StopAsyncIteration)
         [Sigint (Line (ascii ''oi'')), Line (ascii ''oi'')]))
       = stdout (loop_entry (scripted_runtime StopAsyncIteration)) @
         [[0x0A, 0x1F5E3, 0xFE0F] @ ascii ''  Voc'' @ [0xEA] @ ascii '': '',
          [0x1F916] @ ascii '' Agente: Processando...'',
          [0x0A, 0x1F44B] @ ascii '' Programa encerrado.'' @ [0x0A]]"
proof -
  let ?rt = "scripted_runtime StopAsyncIteration"
  let ?e = "loop_entry ?rt"
  let ?w = "(print prompt [] ?e)\<lparr>interrupt_count := 1, must_cancel := True\<rparr>"
  have i1: "input_call ?rt (Sigint r) (print prompt [] ?e) = input_call ?rt r ?w" for r
    by (rule first_sigint) simp_all
  have b1: "loop_body ?rt (Sigint Waiting) ?e = (Blocked, ?w)"
    by (simp add: loop_body_def i1)
  have i2: "input_call ?rt (Sigint Waiting) ?w
      = (Some (Inl KeyboardInterrupt), ?w\<lparr>interrupt_count := 2\<rparr>)"
    using later_sigint [of ?rt ?w Waiting] by simp
  have b2: "loop_body ?rt (Sigint (Sigint Waiting)) ?e
      = (Break, print interrupted newline (?w\<lparr>interrupt_count := 2\<rparr>))"
    by (simp add: loop_body_def i1 i2 inner_except_def)
  have c3: "call_agent ?rt (ascii ''oi'') (print processing [] ?w)
      = (Inl CancelledError,
         (print processing [] ?w)\<lparr>run_async_calls := [dispatch ?rt (ascii ''oi'')],
            must_cancel := False\<rparr>)"
    by (simp add: call_agent_unfold turn_stream_def CancelledError_def)
  have l3: "input_call ?rt (Sigint (Line (ascii ''oi''))) (print prompt [] ?e)
      = (Some (Inr (ascii ''oi'')), ?w)"
    by (simp add: i1)
  have x: "lower (unicode_lower ?rt) (strip (ascii ''oi'')) \<notin> set exit_phrases"
    "strip (ascii ''oi'') \<noteq> []"
    by (simp_all add: strip_line_examples lower_examples exit_phrase_examples blank_examples)
  have b3: "loop_body ?rt (Sigint (Line (ascii ''oi''))) ?e
      = (Propagate CancelledError,
         (print processing [] ?w)\<lparr>run_async_calls := [dispatch ?rt (ascii ''oi'')],
            must_cancel := False\<rparr>)"
    using x c3
    by (simp add: loop_body_line [OF l3] strip_line_examples inner_except_def CancelledError_def)
  have messages:
    "prompt = [0x0A, 0x1F5E3, 0xFE0F] @ ascii ''  Voc'' @ [0xEA] @ ascii '': ''"
    "processing = [0x1F916] @ ascii '' Agente: Processando...''"
    "interrupted @ newline = [0x0A, 0x1F44B] @ ascii '' Interrompido pelo usu'' @ [0xE1] @ ascii ''rio. Tchau!'' @ [0x0A]"
    "program_ended @ newline = [0x0A, 0x1F44B] @ ascii '' Programa encerrado.'' @ [0x0A]"
    by (simp_all add: prompt_def processing_def interrupted_def program_ended_def newline_def)
  have r1: "terminal_interativo ?rt [Sigint Waiting] = (Running, ?w)"
    by (simp add: scripted_terminal main_block_def asyncio_run_def interactive_terminal_started b1)
  have r2: "terminal_interativo ?rt [Sigint (Sigint Waiting)]
      = (Returned, print program_ended newline
          ((print interrupted newline (?w\<lparr>interrupt_count := 2\<rparr>))\<lparr>must_cancel := False\<rparr>))"
    by (simp add: scripted_terminal main_block_def asyncio_run_def interactive_terminal_started b2
        task_cancelled_def)
  have r3: "terminal_interativo ?rt [Sigint (Line (ascii ''oi'')), Line (ascii ''oi'')]
      = (Returned, print program_ended newline
          ((print processing [] ?w)\<lparr>run_async_calls := [dispatch ?rt (ascii ''oi'')],
            must_cancel := False\<rparr>))"
    by (simp add: scripted_terminal main_block_def asyncio_run_def interactive_terminal_started b3
        task_cancelled_def outer_except_def CancelledError_def)
  show ?thesis
    unfolding r1 r2 r3 using messages by simp
qed

section \<open>Properties of the process\<close>

text \<open>
  C6. The user identifier is a constant and the session identifier is fixed by the one
  \<open>uuid4\<close> value of the run: whatever the inputs, every call made to the runner carries
  these two identifiers, and the only session ever created carries them too.
\<close>

theorem one_user_and_session_identifier:
  "(\<forall>c \<in> set (run_async_calls (snd (terminal_interativo rt inps))).
       user_id c = USER_ID_OPENAPI \<and> session_id c = SESSION_ID_OPENAPI rt)
   \<and> (\<forall>ss \<in> set (sessions (snd (terminal_interativo rt inps))).
       ss = (APP_NAME_OPENAPI, USER_ID_OPENAPI, SESSION_ID_OPENAPI rt))
   \<and> length (sessions (snd (terminal_interativo rt inps))) \<le> 1"
  using ids_ok_terminal_interativo [of rt inps] by (simp add: ids_ok_def)

theorem one_user_and_session_identifier_witness:
  "run_async_calls (snd (terminal_interativo
       (scripted_runtime (Yield (final_event (ascii '' ok '')) StopAsyncIteration))
       [Line (ascii ''oi''), Line (ascii '' oi ''), Line (ascii '' SAIR '')]))
     = [dispatch (scripted_runtime (Yield (final_event (ascii '' ok '')) StopAsyncIteration)) (ascii ''oi''),
        dispatch (scripted_runtime (Yield (final_event (ascii '' ok '')) StopAsyncIteration)) (ascii ''oi'')]
   \<and> user_id (dispatch (scripted_runtime (Yield (final_event (ascii '' ok '')) StopAsyncIteration))
        (ascii ''oi'')) = USER_ID_OPENAPI
   \<and> session_id (dispatch (scripted_runtime (Yield (final_event (ascii '' ok '')) StopAsyncIteration))
        (ascii ''oi''))
       = SESSION_ID_OPENAPI (scripted_runtime (Yield (final_event (ascii '' ok '')) StopAsyncIteration))"
proof -
  let ?rt = "scripted_runtime (Yield (final_event (ascii '' ok '')) StopAsyncIteration)"
  let ?inps = "[Line (ascii ''oi''), Line (ascii '' oi ''), Line (ascii '' SAIR '')]"
  have c: "\<not> must_cancel w \<Longrightarrow>
      fst (consume (turn_stream ?rt q w) fallback_text w) = Inr (ascii ''ok'')" for q w
    by (simp add: consume_Yield_answers strip_examples del: consume.simps(4))
  have n: "strip (ascii ''oi'') \<noteq> []" "strip (ascii '' oi '') \<noteq> []"
    by (simp_all add: strip_line_examples blank_examples)
  have x: "lower (unicode_lower ?rt) (strip (ascii ''oi'')) \<notin> set exit_phrases"
    "lower (unicode_lower ?rt) (strip (ascii '' oi '')) \<notin> set exit_phrases"
    by (simp_all add: strip_line_examples lower_examples exit_phrase_examples)
  have l: "lower (unicode_lower ?rt) (strip (ascii '' SAIR '')) \<in> set exit_phrases"
    by (simp add: strip_line_examples lower_examples exit_phrase_examples)
  have c0: "fst (consume (turn_stream ?rt (strip (ascii ''oi'')) (loop_entry ?rt)) fallback_text
      (loop_entry ?rt)) = Inr (ascii ''ok'')"
    by (rule c) simp
  obtain w1 where w1: "while_loop ?rt ?inps (loop_entry ?rt)
      = while_loop ?rt [Line (ascii '' oi ''), Line (ascii '' SAIR '')] w1"
    "run_async_calls w1 = [dispatch ?rt (ascii ''oi'')]" "\<not> must_cancel w1"
    using while_loop_turn [OF n(1) x(1) c0,
        where inps = "[Line (ascii '' oi ''), Line (ascii '' SAIR '')]"]
    by (auto simp: strip_line_examples simp del: while_loop.simps)
  have c1: "fst (consume (turn_stream ?rt (strip (ascii '' oi '')) w1) fallback_text w1)
      = Inr (ascii ''ok'')"
    using w1(3) by (rule c)
  obtain w2 where w2: "while_loop ?rt [Line (ascii '' oi ''), Line (ascii '' SAIR '')] w1
      = while_loop ?rt [Line (ascii '' SAIR '')] w2"
    "run_async_calls w2 = [dispatch ?rt (ascii ''oi''), dispatch ?rt (ascii ''oi'')]"
    "\<not> must_cancel w2"
    using while_loop_turn [OF n(2) x(2) c1, where inps = "[Line (ascii '' SAIR '')]"] w1(2)
    by (auto simp: strip_line_examples simp del: while_loop.simps)
  have "while_loop ?rt ?inps (loop_entry ?rt)
      = (Exiting, print farewell newline (print prompt [] w2))"
    using w1(1) w2(1) by (simp add: loop_body_exit [OF l])
  then have "terminal_interativo ?rt ?inps = (Returned, print farewell newline (print prompt [] w2))"
    using w2(3)
    by (simp add: scripted_terminal main_block_def asyncio_run_def interactive_terminal_started)
  then have calls: "run_async_calls (snd (terminal_interativo ?rt ?inps))
      = [dispatch ?rt (ascii ''oi''), dispatch ?rt (ascii ''oi'')]"
    using w2(2) by simp
  show ?thesis
    using one_user_and_session_identifier [of ?rt ?inps] calls by simp
qed

text \<open>
  C7. When the credential variable is not in the environment, the script raises
  ValueError with its descriptive message at once: nothing has been printed, no session
  has been created, no call has been made, whatever the rest of the runtime would do.
\<close>

theorem missing_credential_is_fatal:
  assumes "environ rt GOOGLE_API_KEY = None"
  shows "terminal_interativo rt inps
           = (Uncaught (Exception ''ValueError'' credential_message), initial_world)
     \<and> credential_message \<noteq> []
     \<and> stdout (snd (terminal_interativo rt inps)) = []
     \<and> sessions (snd (terminal_interativo rt inps)) = []
     \<and> run_async_calls (snd (terminal_interativo rt inps)) = []"
  using assms
  by (simp add: terminal_interativo_def initial_world_def credential_message_def ascii_def)

theorem missing_credential_is_fatal_witness:
  "environ ((scripted_runtime StopAsyncIteration)\<lparr>environ := (\<lambda>k. None)\<rparr>) GOOGLE_API_KEY = None
   \<and> terminal_interativo ((scripted_runtime StopAsyncIteration)\<lparr>environ := (\<lambda>k. None)\<rparr>)
        [Line (ascii ''oi'')]
      = (Uncaught (Exception ''ValueError'' credential_message), initial_world)
   \<and> stdout (snd (terminal_interativo ((scripted_runtime StopAsyncIteration)\<lparr>environ := (\<lambda>k. None)\<rparr>)
        [Line (ascii ''oi'')])) = []"
proof -
  have h: "environ ((scripted_runtime StopAsyncIteration)\<lparr>environ := (\<lambda>k. None)\<rparr>) GOOGLE_API_KEY
      = None" by simp
  show ?thesis
    using missing_credential_is_fatal [OF h, of "[Line (ascii ''oi'')]"] h by blast
qed

end
